theory Spec2Isabelle
  imports Main "HOL-Library.Multiset"
begin

section \<open>Host language: strings and numbers\<close>

text \<open>
  The sources are TypeScript. Strings are \<^typ>\<open>string\<close>. A \<open>number\<close> that comes out of
  \<open>Number(...)\<close> is either \<open>NaN\<close> or a finite integer; integers are kept exact, which is what
  the host does below \<open>2^53\<close>.
\<close>

datatype jsnum = NaN | Fin int

text \<open>\<open>x < y\<close>, \<open>x > y\<close>, \<open>x !== y\<close>, \<open>x - y\<close> and \<open>x + 1\<close> on numbers; every comparison
  with \<open>NaN\<close> is false, \<open>NaN !== x\<close> is true.\<close>

fun jsLess :: "jsnum \<Rightarrow> jsnum \<Rightarrow> bool" where
  "jsLess (Fin a) (Fin b) = (a < b)"
| "jsLess _ _ = False"

fun jsStrictNeq :: "jsnum \<Rightarrow> jsnum \<Rightarrow> bool" where
  "jsStrictNeq (Fin a) (Fin b) = (a \<noteq> b)"
| "jsStrictNeq _ _ = True"



definition isDigit :: "char \<Rightarrow> bool" where
  "isDigit c = (48 \<le> (of_char c :: nat) \<and> (of_char c :: nat) \<le> 57)"

definition digitVal :: "char \<Rightarrow> nat" where
  "digitVal c = of_char c - 48"

definition digitChar :: "nat \<Rightarrow> char" where
  "digitChar d = char_of (48 + d)"

definition decimalValue :: "string \<Rightarrow> nat" where
  "decimalValue s = foldl (\<lambda>n c. 10 * n + digitVal c) 0 s"

text \<open>
  \<open>Number(s)\<close> for the strings that \<open>split('.')\<close> hands over: the empty string is \<open>0\<close>, a
  run of decimal digits is its value, anything else that is not a numeric literal is
  \<open>NaN\<close>. Signs, surrounding white space, exponents, radix prefixes and \<open>Infinity\<close>, which
  the host also accepts, are outside this model and read as \<open>NaN\<close> here.
\<close>

definition Number :: "string \<Rightarrow> jsnum" where
  "Number s = (if s = [] then Fin 0
               else if list_all isDigit s then Fin (int (decimalValue s))
               else NaN)"

fun digitsOf :: "nat \<Rightarrow> string" where
  "digitsOf n = (if n < 10 then [digitChar n] else digitsOf (n div 10) @ [digitChar (n mod 10)])"

declare digitsOf.simps [simp del]

text \<open>The string a template literal \<open>`${x}`\<close> puts in for a number.\<close>

fun numberToString :: "jsnum \<Rightarrow> string" where
  "numberToString NaN = ''NaN''"
| "numberToString (Fin i) = (if i < 0 then CHR ''-'' # digitsOf (nat (- i)) else digitsOf (nat i))"

text \<open>\<open>s.split(sep)\<close> for a one-character separator: never empty, \<open>''''.split('.')\<close> is \<open>['''']\<close>.\<close>

fun split :: "char \<Rightarrow> string \<Rightarrow> string list" where
  "split sep [] = [[]]"
| "split sep (c # cs) =
     (if c = sep then [] # split sep cs
      else (case split sep cs of w # ws \<Rightarrow> (c # w) # ws | [] \<Rightarrow> [[c]]))"

text \<open>\<open>parts[i] ?? 0\<close>: \<open>Number\<close> never yields \<open>null\<close> or \<open>undefined\<close>, so the default is taken
  exactly when the index is past the end.\<close>

definition partOr0 :: "jsnum list \<Rightarrow> nat \<Rightarrow> jsnum" where
  "partOr0 parts i = (if i < length parts then parts ! i else Fin 0)"

section \<open>Files\<close>

datatype 'a json_text = Malformed | Null | Document 'a

datatype 'a disk_file = Missing | Unreadable | Text "'a json_text"

datatype js_error = IOError | SyntaxError | InvalidFormat string

definition existsSync :: "'a disk_file \<Rightarrow> bool" where
  "existsSync f = (f \<noteq> Missing)"

definition readFileSync :: "'a disk_file \<Rightarrow> js_error + 'a json_text" where
  "readFileSync f = (case f of Text t \<Rightarrow> Inr t | _ \<Rightarrow> Inl IOError)"

definition JSON_parse :: "'a json_text \<Rightarrow> js_error + 'a option" where
  "JSON_parse t = (case t of Malformed \<Rightarrow> Inl SyntaxError
                   | Null \<Rightarrow> Inr None
                   | Document d \<Rightarrow> Inr (Some d))"

text \<open>\<open>readJsonFile\<close>: the body of the \<open>try\<close>, and the \<open>catch\<close> that turns every error
  into \<open>null\<close>.\<close>

definition readJsonFile :: "'a disk_file \<Rightarrow> 'a option" where
  "readJsonFile f =
     (if \<not> existsSync f then None
      else (case readFileSync f of
              Inl e \<Rightarrow> None
            | Inr content \<Rightarrow> (case JSON_parse content of Inl e \<Rightarrow> None | Inr v \<Rightarrow> v)))"

definition fileExists :: "'a disk_file \<Rightarrow> bool" where
  "fileExists f = existsSync f"

text \<open>\<open>writeJsonFile\<close> replaces the file by the serialised document; a failing write of the
  host is not modelled.\<close>

definition writeJsonFile :: "'a \<Rightarrow> 'a disk_file" where
  "writeJsonFile d = Text (Document d)"


section \<open>JSON documents and run-time values\<close>

text \<open>A plain object, with its own properties in the order they were created.\<close>

type_synonym 'v obj = "(string \<times> 'v) list"

definition objGet :: "'v obj \<Rightarrow> string \<Rightarrow> 'v option" where
  "objGet ob k = map_of ob k"

fun objSet :: "string \<Rightarrow> 'v \<Rightarrow> 'v obj \<Rightarrow> 'v obj" where
  "objSet k v [] = [(k, v)]"
| "objSet k v (p # ps) = (if fst p = k then (k, v) # ps else p # objSet k v ps)"



text \<open>What a JSON file holds.\<close>

datatype json = JNull | JBool bool | JNum int | JStr string
  | JArray "json list" | JObject "(string \<times> json) list"

text \<open>
  A value of type \<open>unknown\<close> at run time. Primitives are compared by value; an array or
  object is a reference, \<^term>\<open>VObject a c\<close> with the address \<open>a\<close> of the object and its
  content \<open>c\<close>, and \<open>===\<close> compares the addresses.
\<close>

datatype jsval = VUndefined | VNull | VBool bool | VNum int | VStr string | VObject nat json

fun strictEquals :: "jsval \<Rightarrow> jsval \<Rightarrow> bool" where
  "strictEquals VUndefined VUndefined = True"
| "strictEquals VNull VNull = True"
| "strictEquals (VBool a) (VBool b) = (a = b)"
| "strictEquals (VNum a) (VNum b) = (a = b)"
| "strictEquals (VStr a) (VStr b) = (a = b)"
| "strictEquals (VObject a c) (VObject b d) = (a = b)"
| "strictEquals _ _ = False"

text \<open>\<open>ob[key]\<close> on an object of unknown values.\<close>

definition valueAt :: "jsval obj \<Rightarrow> string \<Rightarrow> jsval" where
  "valueAt ob k = (case objGet ob k of None \<Rightarrow> VUndefined | Some v \<Rightarrow> v)"

text \<open>
  \<open>JSON.parse\<close> builds every array and object of the text anew. \<^term>\<open>JSON_value h j\<close> is
  the value built for \<open>j\<close> when \<open>h\<close> is the next free address, with the next free address
  afterwards.
\<close>

fun JSON_value :: "nat \<Rightarrow> json \<Rightarrow> jsval \<times> nat" where
  "JSON_value h JNull = (VNull, h)"
| "JSON_value h (JBool b) = (VBool b, h)"
| "JSON_value h (JNum n) = (VNum n, h)"
| "JSON_value h (JStr s) = (VStr s, h)"
| "JSON_value h (JArray xs) = (VObject h (JArray xs), Suc h)"
| "JSON_value h (JObject fs) = (VObject h (JObject fs), Suc h)"

fun JSON_object :: "nat \<Rightarrow> json obj \<Rightarrow> jsval obj \<times> nat" where
  "JSON_object h [] = ([], h)"
| "JSON_object h ((k, j) # fs) =
     (let (v, h1) = JSON_value h j; (vs, h2) = JSON_object h1 fs in ((k, v) # vs, h2))"

text \<open>\<open>JSON.stringify\<close>: a property whose value is \<open>undefined\<close> is left out.\<close>

fun JSON_of_value :: "jsval \<Rightarrow> json option" where
  "JSON_of_value VUndefined = None"
| "JSON_of_value VNull = Some JNull"
| "JSON_of_value (VBool b) = Some (JBool b)"
| "JSON_of_value (VNum n) = Some (JNum n)"
| "JSON_of_value (VStr s) = Some (JStr s)"
| "JSON_of_value (VObject a c) = Some c"

definition JSON_of_object :: "jsval obj \<Rightarrow> json obj" where
  "JSON_of_object ob = List.map_filter (\<lambda>(k, v). map_option (Pair k) (JSON_of_value v)) ob"

section \<open>Types of the deployment core\<close>

datatype Platform = Ios | Android

datatype Profile = Development | Preview | Staging | Production


fun platformName :: "Platform \<Rightarrow> string" where
  "platformName Ios = ''ios''"
| "platformName Android = ''android''"

fun profileName :: "Profile \<Rightarrow> string" where
  "profileName Development = ''development''"
| "profileName Preview = ''preview''"
| "profileName Staging = ''staging''"
| "profileName Production = ''production''"

text \<open>A time stamp is a string, or \<open>None\<close> for \<open>null\<close> or an absent property.\<close>

record ProfileDeploymentStatus =
  preview :: "string option"
  production :: "string option"
  staging :: "string option"
  development :: "string option"

record DeploymentRecord =
  ios :: ProfileDeploymentStatus
  android :: ProfileDeploymentStatus

record 'v PlatformConfigSnapshot =
  config_android :: "'v obj"
  config_ios :: "'v obj"

record 'v DeploymentHistory =
  versions :: "DeploymentRecord obj"
  lastConfig :: "'v PlatformConfigSnapshot"

record ConfigChange =
  key :: string
  from_value :: jsval
  to_value :: jsval

record SyncWarning =
  message :: string
  platform :: Platform
  profile :: Profile


text \<open>\<open>app.json\<close> and \<open>package.json\<close>, the parts the core reads and writes.\<close>

record ExpoBuildPropertiesConfig =
  props_android :: "json obj option"
  props_ios :: "json obj option"

datatype plugin = PluginName string | PluginTuple string "ExpoBuildPropertiesConfig option"

record Expo =
  version :: "string option"
  plugins :: "plugin list option"

record ExpoAppJson =
  expo :: Expo

record PackageJson =
  package_version :: string

record files =
  app_json :: "ExpoAppJson disk_file"
  package_json :: "PackageJson disk_file"
  deployments_json :: "json DeploymentHistory disk_file"

section \<open>Version manager\<close>




text \<open>The two manifest updates shared by \<open>bump\<close> and \<open>setVersion\<close>: each file is rewritten
  only if it could be read.\<close>

definition writeAppVersion :: "string \<Rightarrow> files \<Rightarrow> files" where
  "writeAppVersion v fs =
     (case readJsonFile (app_json fs) of
        None \<Rightarrow> fs
      | Some appJson \<Rightarrow>
          fs\<lparr>app_json := writeJsonFile (appJson\<lparr>expo := (expo appJson)\<lparr>version := Some v\<rparr>\<rparr>)\<rparr>)"

definition writePackageVersion :: "string \<Rightarrow> files \<Rightarrow> files" where
  "writePackageVersion v fs =
     (case readJsonFile (package_json fs) of
        None \<Rightarrow> fs
      | Some packageJson \<Rightarrow>
          fs\<lparr>package_json := writeJsonFile (packageJson\<lparr>package_version := v\<rparr>)\<rparr>)"


text \<open>Regular expressions, as far as \<open>/^\d+\.\d+\.\d+$/\<close> needs them; \<open>test\<close> on a pattern
  anchored at both ends is a match of the whole string.\<close>

datatype regex = Never | Eps | Digit | Lit char | Seq regex regex | Alt regex regex | Star regex

definition Plus :: "regex \<Rightarrow> regex" where
  "Plus r = Seq r (Star r)"

fun nullable :: "regex \<Rightarrow> bool" where
  "nullable Never = False"
| "nullable Eps = True"
| "nullable Digit = False"
| "nullable (Lit c) = False"
| "nullable (Seq r s) = (nullable r \<and> nullable s)"
| "nullable (Alt r s) = (nullable r \<or> nullable s)"
| "nullable (Star r) = True"

fun deriv :: "char \<Rightarrow> regex \<Rightarrow> regex" where
  "deriv c Never = Never"
| "deriv c Eps = Never"
| "deriv c Digit = (if isDigit c then Eps else Never)"
| "deriv c (Lit d) = (if c = d then Eps else Never)"
| "deriv c (Seq r s) =
     (if nullable r then Alt (Seq (deriv c r) s) (deriv c s) else Seq (deriv c r) s)"
| "deriv c (Alt r s) = Alt (deriv c r) (deriv c s)"
| "deriv c (Star r) = Seq (deriv c r) (Star r)"

fun regex_test :: "regex \<Rightarrow> string \<Rightarrow> bool" where
  "regex_test r [] = nullable r"
| "regex_test r (c # cs) = regex_test (deriv c r) cs"

definition versionPattern :: regex where
  "versionPattern =
     Seq (Plus Digit) (Seq (Lit (CHR ''.'')) (Seq (Plus Digit) (Seq (Lit (CHR ''.'')) (Plus Digit))))"

definition setVersion :: "files \<Rightarrow> string \<Rightarrow> js_error + (string \<times> files)" where
  "setVersion fs v =
     (if \<not> regex_test versionPattern v
      then Inl (InvalidFormat (''Invalid version format: '' @ v @ ''. Expected format: x.y.z''))
      else Inr (v, writePackageVersion v (writeAppVersion v fs)))"

function compareLoop :: "jsnum list \<Rightarrow> jsnum list \<Rightarrow> nat \<Rightarrow> int" where
  "compareLoop aParts bParts i =
     (if i < 3
      then (let aVal = partOr0 aParts i; bVal = partOr0 bParts i
            in if jsLess aVal bVal then - 1
               else if jsLess bVal aVal then 1
               else compareLoop aParts bParts (i + 1))
      else 0)"
  by pat_completeness auto
termination
  by (relation "measure (\<lambda>(a, b, i). 3 - i)") auto

declare compareLoop.simps [simp del]

definition compareVersions :: "string \<Rightarrow> string \<Rightarrow> int" where
  "compareVersions a b =
     compareLoop (map Number (split (CHR ''.'') a)) (map Number (split (CHR ''.'') b)) 0"

definition isNewerVersion :: "string \<Rightarrow> string \<Rightarrow> bool" where
  "isNewerVersion a b = (compareVersions a b > 0)"

section \<open>Deployment tracker\<close>

definition createEmptyDeploymentRecord :: DeploymentRecord where
  "createEmptyDeploymentRecord =
     \<lparr>ios = \<lparr>preview = None, production = None, staging = None, development = None\<rparr>,
      android = \<lparr>preview = None, production = None, staging = None, development = None\<rparr>\<rparr>"

definition createEmptyDeploymentHistory :: "'v DeploymentHistory" where
  "createEmptyDeploymentHistory =
     \<lparr>versions = [], lastConfig = \<lparr>config_android = [], config_ios = []\<rparr>\<rparr>"

text \<open>\<open>status[platform]\<close>, \<open>status[profile]\<close> and the assignment
  \<open>record[platform][profile] = value\<close>.\<close>

fun platformStatus :: "DeploymentRecord \<Rightarrow> Platform \<Rightarrow> ProfileDeploymentStatus" where
  "platformStatus r Ios = ios r"
| "platformStatus r Android = android r"

fun profileStatus :: "ProfileDeploymentStatus \<Rightarrow> Profile \<Rightarrow> string option" where
  "profileStatus s Preview = preview s"
| "profileStatus s Production = production s"
| "profileStatus s Staging = staging s"
| "profileStatus s Development = development s"

fun setProfileStatus :: "Profile \<Rightarrow> string option \<Rightarrow> ProfileDeploymentStatus \<Rightarrow> ProfileDeploymentStatus" where
  "setProfileStatus Preview t s = s\<lparr>preview := t\<rparr>"
| "setProfileStatus Production t s = s\<lparr>production := t\<rparr>"
| "setProfileStatus Staging t s = s\<lparr>staging := t\<rparr>"
| "setProfileStatus Development t s = s\<lparr>development := t\<rparr>"

fun setStatus :: "Platform \<Rightarrow> Profile \<Rightarrow> string option \<Rightarrow> DeploymentRecord \<Rightarrow> DeploymentRecord" where
  "setStatus Ios prof t r = r\<lparr>ios := setProfileStatus prof t (ios r)\<rparr>"
| "setStatus Android prof t r = r\<lparr>android := setProfileStatus prof t (android r)\<rparr>"

text \<open>A time stamp used as a condition: \<open>null\<close>, \<open>undefined\<close> and the empty string are
  falsy.\<close>

fun truthy :: "string option \<Rightarrow> bool" where
  "truthy None = False"
| "truthy (Some s) = (s \<noteq> [])"

fun snapshotOf :: "'v PlatformConfigSnapshot \<Rightarrow> Platform \<Rightarrow> 'v obj" where
  "snapshotOf c Android = config_android c"
| "snapshotOf c Ios = config_ios c"

fun setSnapshot :: "Platform \<Rightarrow> 'v obj \<Rightarrow> 'v PlatformConfigSnapshot \<Rightarrow> 'v PlatformConfigSnapshot" where
  "setSnapshot Android ob c = c\<lparr>config_android := ob\<rparr>"
| "setSnapshot Ios ob c = c\<lparr>config_ios := ob\<rparr>"

text \<open>The tracker object: its field \<open>data\<close>. The path of the deployments file is fixed, the
  file itself is \<^const>\<open>deployments_json\<close>.\<close>

record DeploymentTracker =
  data :: "jsval DeploymentHistory"

text \<open>The document as \<open>JSON.parse\<close> builds it in memory, from the next free address \<open>h\<close>.\<close>

definition JSON_history :: "nat \<Rightarrow> json DeploymentHistory \<Rightarrow> jsval DeploymentHistory \<times> nat" where
  "JSON_history h d =
     (let (a, h1) = JSON_object h (config_android (lastConfig d));
          (i, h2) = JSON_object h1 (config_ios (lastConfig d))
      in (\<lparr>versions = versions d, lastConfig = \<lparr>config_android = a, config_ios = i\<rparr>\<rparr>, h2))"

definition JSON_of_history :: "jsval DeploymentHistory \<Rightarrow> json DeploymentHistory" where
  "JSON_of_history d =
     \<lparr>versions = versions d,
      lastConfig = \<lparr>config_android = JSON_of_object (config_android (lastConfig d)),
                    config_ios = JSON_of_object (config_ios (lastConfig d))\<rparr>\<rparr>"

definition load :: "files \<Rightarrow> nat \<Rightarrow> jsval DeploymentHistory \<times> nat" where
  "load fs h =
     (if \<not> fileExists (deployments_json fs) then (createEmptyDeploymentHistory, h)
      else (case readJsonFile (deployments_json fs) of
              None \<Rightarrow> (createEmptyDeploymentHistory, h)
            | Some d \<Rightarrow> JSON_history h d))"

text \<open>The constructor.\<close>

definition newDeploymentTracker :: "files \<Rightarrow> nat \<Rightarrow> DeploymentTracker \<times> nat" where
  "newDeploymentTracker fs h = (let (d, h') = load fs h in (\<lparr>data = d\<rparr>, h'))"

definition save :: "DeploymentTracker \<Rightarrow> files \<Rightarrow> files" where
  "save t fs = fs\<lparr>deployments_json := writeJsonFile (JSON_of_history (data t))\<rparr>"

definition exists_file :: "DeploymentTracker \<Rightarrow> files \<Rightarrow> bool" where
  "exists_file t fs = fileExists (deployments_json fs)"


definition getVersionStatus :: "DeploymentTracker \<Rightarrow> string \<Rightarrow> DeploymentRecord" where
  "getVersionStatus t v =
     (case objGet (versions (data t)) v of None \<Rightarrow> createEmptyDeploymentRecord | Some r \<Rightarrow> r)"

text \<open>\<open>updateStatus\<close>; \<open>now\<close> is the string \<open>new Date().toISOString()\<close> returns.\<close>

definition updateStatus ::
  "string \<Rightarrow> DeploymentTracker \<Rightarrow> files \<Rightarrow> string \<Rightarrow> Platform \<Rightarrow> Profile \<Rightarrow> DeploymentTracker \<times> files" where
  "updateStatus now t fs v plat prof =
     (let vs = versions (data t);
          vs1 = (if objGet vs v = None then objSet v createEmptyDeploymentRecord vs else vs);
          r = (case objGet vs1 v of None \<Rightarrow> createEmptyDeploymentRecord | Some r \<Rightarrow> r);
          vs2 = objSet v (setStatus plat prof (Some now) r) vs1;
          t' = t\<lparr>data := (data t)\<lparr>versions := vs2\<rparr>\<rparr>
      in (t', save t' fs))"

definition getLastConfig :: "DeploymentTracker \<Rightarrow> Platform \<Rightarrow> jsval obj" where
  "getLastConfig t plat = snapshotOf (lastConfig (data t)) plat"

definition updateLastConfig ::
  "DeploymentTracker \<Rightarrow> files \<Rightarrow> Platform \<Rightarrow> jsval obj \<Rightarrow> DeploymentTracker \<times> files" where
  "updateLastConfig t fs plat config =
     (let t' = t\<lparr>data := (data t)\<lparr>lastConfig := setSnapshot plat config (lastConfig (data t))\<rparr>\<rparr>
      in (t', save t' fs))"








text \<open>\<open>formatDate\<close>; \<open>toLocaleString\<close> is the host's rendering of a date in the locale.\<close>

definition formatDate :: "(string \<Rightarrow> string) \<Rightarrow> string option \<Rightarrow> string" where
  "formatDate toLocaleString isoString =
     (if \<not> truthy isoString then ''Not deployed''
      else (case isoString of Some s \<Rightarrow> toLocaleString s | None \<Rightarrow> ''Not deployed''))"

definition checkSyncWarnings ::
  "(string \<Rightarrow> string) \<Rightarrow> DeploymentTracker \<Rightarrow> string \<Rightarrow> Platform \<Rightarrow> Profile \<Rightarrow> SyncWarning list" where
  "checkSyncWarnings toLocaleString t v plat prof =
     (let status = getVersionStatus t v;
          otherPlatform = (if plat = Ios then Android else Ios);
          otherDeployedAt = profileStatus (platformStatus status otherPlatform) prof;
          thisDeployedAt = profileStatus (platformStatus status plat) prof;
          warnings = [];
          warnings = (if truthy otherDeployedAt \<and> \<not> truthy thisDeployedAt
                      then warnings @
                        [\<lparr>message = platformName otherPlatform @ '' '' @ profileName prof
                                     @ '' was deployed on '' @ formatDate toLocaleString otherDeployedAt,
                          platform = otherPlatform, profile = prof\<rparr>]
                      else warnings);
          warnings = (if truthy thisDeployedAt
                      then warnings @
                        [\<lparr>message = platformName plat @ '' '' @ profileName prof
                                     @ '' already deployed on '' @ formatDate toLocaleString thisDeployedAt,
                          platform = plat, profile = prof\<rparr>]
                      else warnings)
      in warnings)"




section \<open>Configuration change detection\<close>

fun DEFAULT_CRITICAL_CONFIG :: "Platform \<Rightarrow> string list" where
  "DEFAULT_CRITICAL_CONFIG Android = [''minSdkVersion'', ''targetSdkVersion'', ''compileSdkVersion'']"
| "DEFAULT_CRITICAL_CONFIG Ios = [''deploymentTarget'']"

fun isBuildPropertiesPlugin :: "plugin \<Rightarrow> bool" where
  "isBuildPropertiesPlugin (PluginName s) = False"
| "isBuildPropertiesPlugin (PluginTuple s c) = (s = ''expo-build-properties'')"

text \<open>The loop that copies the critical keys which are present.\<close>

fun extractLoop :: "string list \<Rightarrow> jsval obj \<Rightarrow> jsval obj \<Rightarrow> jsval obj" where
  "extractLoop [] platformConfig config = config"
| "extractLoop (k # ks) platformConfig config =
     (let v = valueAt platformConfig k
      in extractLoop ks platformConfig
           (if \<not> strictEquals v VUndefined then objSet k v config else config))"

text \<open>
  \<open>readCurrentPlatformConfig\<close>. The file is parsed at every call, so the arrays and objects
  among the values are new ones each time: they take their addresses from \<open>h\<close>, and the next
  free address is returned with the result.
\<close>

definition readCurrentPlatformConfig ::
  "Platform \<Rightarrow> files \<Rightarrow> nat \<Rightarrow> string list option \<Rightarrow> jsval obj \<times> nat" where
  "readCurrentPlatformConfig plat fs h criticalKeys =
     (case readJsonFile (app_json fs) of
        None \<Rightarrow> ([], h)
      | Some appJson \<Rightarrow>
         (let plugs = (case plugins (expo appJson) of None \<Rightarrow> [] | Some ps \<Rightarrow> ps)
          in (case find isBuildPropertiesPlugin plugs of
                None \<Rightarrow> ([], h)
              | Some (PluginName s) \<Rightarrow> ([], h)
              | Some (PluginTuple s None) \<Rightarrow> ([], h)
              | Some (PluginTuple s (Some pluginConfig)) \<Rightarrow>
                 (let platformSection = (if plat = Android then props_android pluginConfig
                                 else props_ios pluginConfig);
                      (platformConfig, h') =
                         JSON_object h (case platformSection of None \<Rightarrow> [] | Some c \<Rightarrow> c);
                      keys = (case criticalKeys of None \<Rightarrow> DEFAULT_CRITICAL_CONFIG plat
                              | Some ks \<Rightarrow> ks)
                  in (extractLoop keys platformConfig [], h')))))"

fun detectLoop :: "string list \<Rightarrow> jsval obj \<Rightarrow> jsval obj \<Rightarrow> ConfigChange list \<Rightarrow> ConfigChange list" where
  "detectLoop [] currentConfig lastConf changes = changes"
| "detectLoop (k # ks) currentConfig lastConf changes =
     (let current = valueAt currentConfig k;
          last = valueAt lastConf k
      in detectLoop ks currentConfig lastConf
           (if \<not> strictEquals current last
            then changes @
              [\<lparr>key = k,
                from_value = (if \<not> strictEquals last VUndefined then last else VStr ''unset''),
                to_value = (if \<not> strictEquals current VUndefined then current else VStr ''unset'')\<rparr>]
            else changes))"

definition detectConfigChanges ::
  "Platform \<Rightarrow> DeploymentTracker \<Rightarrow> files \<Rightarrow> nat \<Rightarrow> string list option \<Rightarrow> ConfigChange list \<times> nat" where
  "detectConfigChanges plat t fs h criticalKeys =
     (let (currentConfig, h') = readCurrentPlatformConfig plat fs h criticalKeys;
          lastConf = getLastConfig t plat;
          keys = (case criticalKeys of None \<Rightarrow> DEFAULT_CRITICAL_CONFIG plat | Some ks \<Rightarrow> ks)
      in (detectLoop keys currentConfig lastConf [], h'))"

definition hasConfigChanged ::
  "Platform \<Rightarrow> DeploymentTracker \<Rightarrow> files \<Rightarrow> nat \<Rightarrow> string list option \<Rightarrow> bool \<times> nat" where
  "hasConfigChanged plat t fs h criticalKeys =
     (let (changes, h') = detectConfigChanges plat t fs h criticalKeys in (length changes > 0, h'))"

definition updateTrackedConfig ::
  "Platform \<Rightarrow> DeploymentTracker \<Rightarrow> files \<Rightarrow> nat \<Rightarrow> string list option
     \<Rightarrow> (DeploymentTracker \<times> files) \<times> nat" where
  "updateTrackedConfig plat t fs h criticalKeys =
     (let (currentConfig, h') = readCurrentPlatformConfig plat fs h criticalKeys
      in (updateLastConfig t fs plat currentConfig, h'))"

section \<open>The ledger invariant\<close>




section \<open>Specification of version strings\<close>






section \<open>Specification of the version order\<close>





section \<open>Specification of configuration values\<close>

text \<open>The value is an array or an object.\<close>

fun isReference :: "jsval \<Rightarrow> bool" where
  "isReference (VObject a c) = True"
| "isReference _ = False"

section \<open>Properties of the deployment tracker\<close>

lemma objGet_simps [simp]:
  "objGet [] k = None"
  "objGet ((k', v) # ps) k = (if k' = k then Some v else objGet ps k)"
  by (auto simp: objGet_def)

lemma objGet_objSet [simp]:
  "objGet (objSet k v ob) k' = (if k' = k then Some v else objGet ob k')"
  by (induction ob) (auto simp: objGet_def)





lemma profileStatus_set [simp]:
  "profileStatus (setProfileStatus prof t s) prof'
     = (if prof' = prof then t else profileStatus s prof')"
  by (cases prof; cases prof') auto

lemma platformStatus_set [simp]:
  "profileStatus (platformStatus (setStatus plat prof t r) plat') prof'
     = (if plat' = plat \<and> prof' = prof then t else profileStatus (platformStatus r plat') prof')"
  by (cases plat; cases plat') auto











text \<open>
  Claim C1, as the code has it. The warning about the sibling platform needs this
  platform's time stamp to be falsy, the re-deployment warning needs it to be truthy: no
  ledger and no arguments make \<open>checkSyncWarnings\<close> return both. The first is the only
  warning that names the other platform, the second the only one that names this one.
\<close>

theorem checkSyncWarnings_never_both:
  "\<not> (\<exists>toLocaleString t v plat prof.
        (\<exists>w \<in> set (checkSyncWarnings toLocaleString t v plat prof). platform w \<noteq> plat)
      \<and> (\<exists>w \<in> set (checkSyncWarnings toLocaleString t v plat prof). platform w = plat))"
  by (auto simp: checkSyncWarnings_def Let_def split: if_splits)

text \<open>
  Claim C1, amended: \<open>checkSyncWarnings\<close> returns at most one warning. It is the warning
  about the sibling platform exactly when the sibling's time stamp is truthy and this
  platform's is not, and the re-deployment warning exactly when this platform's time stamp
  is truthy.
\<close>

theorem checkSyncWarnings_exclusive:
  "let status = getVersionStatus t v;
       other = (if plat = Ios then Android else Ios);
       thisDeployedAt = profileStatus (platformStatus status plat) prof;
       otherDeployedAt = profileStatus (platformStatus status other) prof;
       ws = checkSyncWarnings toLocaleString t v plat prof
   in length ws \<le> 1
      \<and> ((\<exists>w \<in> set ws. platform w = other) \<longleftrightarrow> truthy otherDeployedAt \<and> \<not> truthy thisDeployedAt)
      \<and> ((\<exists>w \<in> set ws. platform w = plat) \<longleftrightarrow> truthy thisDeployedAt)"
  by (auto simp: checkSyncWarnings_def Let_def split: if_splits)

theorem checkSyncWarnings_exclusive_witness:
  "length (checkSyncWarnings (\<lambda>s. s)
             (fst (updateStatus ''2024-01-15T10:30:00.000Z'' \<lparr>data = createEmptyDeploymentHistory\<rparr>
                     \<lparr>app_json = Missing, package_json = Missing, deployments_json = Missing\<rparr>
                     ''1.0.0'' Ios Preview))
             ''1.0.0'' Android Preview) \<le> 1
   \<and> (\<exists>w \<in> set (checkSyncWarnings (\<lambda>s. s)
             (fst (updateStatus ''2024-01-15T10:30:00.000Z'' \<lparr>data = createEmptyDeploymentHistory\<rparr>
                     \<lparr>app_json = Missing, package_json = Missing, deployments_json = Missing\<rparr>
                     ''1.0.0'' Ios Preview))
             ''1.0.0'' Android Preview). platform w = Ios)"
  using checkSyncWarnings_exclusive [of
      "fst (updateStatus ''2024-01-15T10:30:00.000Z'' \<lparr>data = createEmptyDeploymentHistory\<rparr>
              \<lparr>app_json = Missing, package_json = Missing, deployments_json = Missing\<rparr>
              ''1.0.0'' Ios Preview)"
      "''1.0.0''" Android Preview "\<lambda>s. s"]
  by (simp add: Let_def getVersionStatus_def updateStatus_def createEmptyDeploymentHistory_def
      createEmptyDeploymentRecord_def)





text \<open>
  Claim C9. When the deployments file is missing, or is there but does not parse, loading
  gives the empty history and the constructor returns a tracker that holds it: no versions
  and an empty snapshot for each platform. \<open>readJsonFile\<close> catches the errors of reading
  and parsing, so neither \<open>load\<close> nor the constructor has an error result.
\<close>

theorem load_fallback:
  assumes "deployments_json fs = Missing \<or> deployments_json fs = Text Malformed"
  shows "load fs h = (createEmptyDeploymentHistory, h)
       \<and> fst (newDeploymentTracker fs h)
           = \<lparr>data = \<lparr>versions = [], lastConfig = \<lparr>config_android = [], config_ios = []\<rparr>\<rparr>\<rparr>"
  using assms
  by (auto simp: load_def newDeploymentTracker_def fileExists_def existsSync_def readJsonFile_def
      readFileSync_def JSON_parse_def createEmptyDeploymentHistory_def)

theorem load_fallback_witness:
  "(deployments_json \<lparr>app_json = Missing, package_json = Missing, deployments_json = Text Malformed\<rparr>
      = (Text Malformed :: json DeploymentHistory disk_file))
   \<and> fst (newDeploymentTracker
        \<lparr>app_json = Missing, package_json = Missing, deployments_json = Text Malformed\<rparr> 0)
     = \<lparr>data = \<lparr>versions = [], lastConfig = \<lparr>config_android = [], config_ios = []\<rparr>\<rparr>\<rparr>"
  using load_fallback [of "\<lparr>app_json = Missing, package_json = Missing,
      deployments_json = Text Malformed\<rparr>" 0]
  by simp

section \<open>Properties of the version manager\<close>









lemma numberToString_nat: "numberToString (Fin (int n)) = digitsOf n"
  by simp

lemma split_not_Nil [simp]: "split sep s \<noteq> []"
  by (induction s) (auto split: list.splits)



















lemma compareLoop_unfold:
  "compareLoop a b 0 =
     (if jsLess (partOr0 a 0) (partOr0 b 0) then - 1
      else if jsLess (partOr0 b 0) (partOr0 a 0) then 1
      else if jsLess (partOr0 a 1) (partOr0 b 1) then - 1
      else if jsLess (partOr0 b 1) (partOr0 a 1) then 1
      else if jsLess (partOr0 a 2) (partOr0 b 2) then - 1
      else if jsLess (partOr0 b 2) (partOr0 a 2) then 1
      else 0)"
proof -
  have 3: "compareLoop a b 3 = 0"
    by (subst compareLoop.simps) simp
  have 2: "compareLoop a b 2 =
     (if jsLess (partOr0 a 2) (partOr0 b 2) then - 1
      else if jsLess (partOr0 b 2) (partOr0 a 2) then 1 else 0)"
    by (subst compareLoop.simps) (simp add: 3 Let_def)
  have 1: "compareLoop a b (Suc 0) =
     (if jsLess (partOr0 a 1) (partOr0 b 1) then - 1
      else if jsLess (partOr0 b 1) (partOr0 a 1) then 1 else compareLoop a b 2)"
    by (subst compareLoop.simps) (simp add: Let_def numeral_2_eq_2)
  show ?thesis
    by (subst compareLoop.simps) (simp add: 1 2 Let_def)
qed

lemma partOr0_take: "i < n \<Longrightarrow> partOr0 (take n xs) i = partOr0 xs i"
  by (simp add: partOr0_def)

lemma compareLoop_take: "compareLoop (take 3 a) (take 3 b) 0 = compareLoop a b 0"
  by (simp add: compareLoop_unfold partOr0_take)

lemma jsLess_eq: "\<not> jsStrictNeq x y \<Longrightarrow> \<not> jsLess x y \<and> \<not> jsLess y x"
  by (cases x; cases y) auto

text \<open>
  Claim C10. If the first three components of \<open>a\<close> and \<open>b\<close> are equal as numbers (a missing
  one counting as \<open>0\<close>), \<open>compareVersions a b\<close> is \<open>0\<close>. Two pairs of strings that agree on
  their first three dot-separated components get the same result from \<open>compareVersions\<close>
  and from \<open>isNewerVersion\<close>. So \<open>compareVersions('1.0.0.9', '1.0.0')\<close> is \<open>0\<close>, although
  \<open>setVersion\<close> rejects \<open>'1.0.0.9'\<close>.
\<close>

theorem compareVersions_first_three:
  "((\<forall>i<3. \<not> jsStrictNeq (partOr0 (map Number (split (CHR ''.'') a)) i)
                          (partOr0 (map Number (split (CHR ''.'') b)) i))
      \<longrightarrow> compareVersions a b = 0)
   \<and> (take 3 (split (CHR ''.'') a) = take 3 (split (CHR ''.'') a')
        \<and> take 3 (split (CHR ''.'') b) = take 3 (split (CHR ''.'') b')
      \<longrightarrow> compareVersions a b = compareVersions a' b'
          \<and> isNewerVersion a b = isNewerVersion a' b')
   \<and> compareVersions ''1.0.0.9'' ''1.0.0'' = 0
   \<and> \<not> isNewerVersion ''1.0.0.9'' ''1.0.0''
   \<and> isl (setVersion fs ''1.0.0.9'')"
proof -
  have eq: "(\<forall>i<3. \<not> jsStrictNeq (partOr0 (map Number (split (CHR ''.'') a)) i)
                          (partOr0 (map Number (split (CHR ''.'') b)) i))
      \<longrightarrow> compareVersions a b = 0"
  proof
    assume h: "\<forall>i<3. \<not> jsStrictNeq (partOr0 (map Number (split (CHR ''.'') a)) i)
                          (partOr0 (map Number (split (CHR ''.'') b)) i)"
    have "\<not> jsStrictNeq (partOr0 (map Number (split (CHR ''.'') a)) i)
                          (partOr0 (map Number (split (CHR ''.'') b)) i)" if "i < 3" for i
      using h that by blast
    from this [of 0] this [of 1] this [of 2] show "compareVersions a b = 0"
      unfolding compareVersions_def compareLoop_unfold
      by (simp add: jsLess_eq)
  qed
  have cut: "compareVersions x y
      = compareLoop (map Number (take 3 (split (CHR ''.'') x)))
                    (map Number (take 3 (split (CHR ''.'') y))) 0" for x y
    by (simp only: compareVersions_def take_map [symmetric] compareLoop_take)
  have indep: "take 3 (split (CHR ''.'') a) = take 3 (split (CHR ''.'') a')
        \<and> take 3 (split (CHR ''.'') b) = take 3 (split (CHR ''.'') b')
      \<longrightarrow> compareVersions a b = compareVersions a' b'
          \<and> isNewerVersion a b = isNewerVersion a' b'"
    by (simp add: isNewerVersion_def cut)
  have ex: "compareVersions ''1.0.0.9'' ''1.0.0'' = 0"
    by code_simp
  have ex2: "\<not> isNewerVersion ''1.0.0.9'' ''1.0.0''"
    by (simp add: isNewerVersion_def ex)
  have rej: "isl (setVersion fs ''1.0.0.9'')"
  proof -
    have "\<not> regex_test versionPattern ''1.0.0.9''" by code_simp
    then show ?thesis by (simp add: setVersion_def)
  qed
  from eq indep ex ex2 rej show ?thesis by blast
qed

theorem compareVersions_first_three_witness:
  "compareVersions ''2.5.3.7'' ''2.5.3'' = 0
   \<and> compareVersions ''1.2.0.9.9'' ''1.3.0'' = compareVersions ''1.2.0'' ''1.3.0.4''"
proof -
  have h: "\<forall>i<3. \<not> jsStrictNeq (partOr0 (map Number (split (CHR ''.'') ''2.5.3.7'')) i)
                          (partOr0 (map Number (split (CHR ''.'') ''2.5.3'')) i)"
  proof (intro allI impI)
    fix i :: nat
    assume "i < 3"
    then have "i = 0 \<or> i = 1 \<or> i = 2" by arith
    moreover have "map Number (split (CHR ''.'') ''2.5.3.7'') = [Fin 2, Fin 5, Fin 3, Fin 7]"
      by code_simp
    moreover have "map Number (split (CHR ''.'') ''2.5.3'') = [Fin 2, Fin 5, Fin 3]"
      by code_simp
    ultimately show "\<not> jsStrictNeq (partOr0 (map Number (split (CHR ''.'') ''2.5.3.7'')) i)
                          (partOr0 (map Number (split (CHR ''.'') ''2.5.3'')) i)"
      by (auto simp: partOr0_def)
  qed
  have t1: "take 3 (split (CHR ''.'') ''1.2.0.9.9'') = take 3 (split (CHR ''.'') ''1.2.0'')"
    by simp
  have t2: "take 3 (split (CHR ''.'') ''1.3.0'') = take 3 (split (CHR ''.'') ''1.3.0.4'')"
    by simp
  from compareVersions_first_three [of "''2.5.3.7''" "''2.5.3''" "''2.5.3.7''" "''2.5.3''"] h
  have a: "compareVersions ''2.5.3.7'' ''2.5.3'' = 0" by blast
  from compareVersions_first_three [of "''1.2.0.9.9''" "''1.3.0''" "''1.2.0''" "''1.3.0.4''"] t1 t2
  have b: "compareVersions ''1.2.0.9.9'' ''1.3.0'' = compareVersions ''1.2.0'' ''1.3.0.4''" by blast
  from a b show ?thesis by blast
qed















section \<open>Properties of the version listing\<close>















section \<open>Properties of the configuration change detection\<close>

lemma strictEquals_refl [simp]: "strictEquals v v"
  by (cases v) auto

lemma strictEquals_undefined [simp]:
  "strictEquals v VUndefined \<longleftrightarrow> v = VUndefined"
  by (cases v) auto

lemma detectLoop_acc:
  "detectLoop ks cur lst acc =
     acc @ map (\<lambda>k. \<lparr>key = k,
                      from_value = (if valueAt lst k = VUndefined then VStr ''unset'' else valueAt lst k),
                      to_value = (if valueAt cur k = VUndefined then VStr ''unset'' else valueAt cur k)\<rparr>)
             (filter (\<lambda>k. \<not> strictEquals (valueAt cur k) (valueAt lst k)) ks)"
  by (induction ks arbitrary: acc) (auto simp: Let_def)





lemma valueAt_Nil [simp]: "valueAt [] k = VUndefined"
  by (simp add: valueAt_def)

lemma valueAt_objSet [simp]: "valueAt (objSet k v ob) k' = (if k' = k then v else valueAt ob k')"
  by (simp add: valueAt_def)

lemma extractLoop_valueAt:
  "valueAt (extractLoop ks pc acc) k
     = (if k \<in> set ks \<and> valueAt pc k \<noteq> VUndefined then valueAt pc k else valueAt acc k)"
  by (induction ks arbitrary: acc) (auto simp: Let_def)

lemma extractLoop_cong:
  "(\<And>k. k \<in> set ks \<Longrightarrow> valueAt pc k = valueAt pc' k)
     \<Longrightarrow> extractLoop ks pc acc = extractLoop ks pc' acc"
  by (induction ks arbitrary: acc) (auto simp: Let_def)

lemma extractLoop_empty [simp]: "extractLoop ks [] [] = []"
  by (induction ks) (auto simp: Let_def)

lemma JSON_value_stable:
  "\<not> isReference (fst (JSON_value a j)) \<Longrightarrow> fst (JSON_value b j) = fst (JSON_value a j)"
  by (cases j) auto

lemma JSON_object_valueAt:
  "\<exists>a. valueAt (fst (JSON_object h sec)) k
        = (case map_of sec k of None \<Rightarrow> VUndefined | Some j \<Rightarrow> fst (JSON_value a j))"
proof (induction sec arbitrary: h)
  case Nil
  show ?case by simp
next
  case (Cons p sec)
  obtain k' j where p: "p = (k', j)" by (cases p)
  obtain v h1 where v: "JSON_value h j = (v, h1)" by (cases "JSON_value h j")
  obtain vs h2 where vs: "JSON_object h1 sec = (vs, h2)" by (cases "JSON_object h1 sec")
  from Cons.IH [of h1] vs obtain a where
    a: "valueAt vs k = (case map_of sec k of None \<Rightarrow> VUndefined | Some j \<Rightarrow> fst (JSON_value a j))"
    by auto
  show ?case
  proof (cases "k' = k")
    case True
    with p v vs show ?thesis
      by (auto simp: valueAt_def intro!: exI [of _ h])
  next
    case False
    with p v vs a show ?thesis
      by (auto simp: valueAt_def intro!: exI [of _ a])
  qed
qed

lemma JSON_object_stable:
  assumes "\<not> isReference (valueAt (fst (JSON_object h sec)) k)"
  shows "valueAt (fst (JSON_object h' sec)) k = valueAt (fst (JSON_object h sec)) k"
proof -
  from JSON_object_valueAt [of h sec k] obtain a where
    a: "valueAt (fst (JSON_object h sec)) k
        = (case map_of sec k of None \<Rightarrow> VUndefined | Some j \<Rightarrow> fst (JSON_value a j))" by blast
  from JSON_object_valueAt [of h' sec k] obtain b where
    b: "valueAt (fst (JSON_object h' sec)) k
        = (case map_of sec k of None \<Rightarrow> VUndefined | Some j \<Rightarrow> fst (JSON_value b j))" by blast
  show ?thesis
  proof (cases "map_of sec k")
    case None
    with a b show ?thesis by simp
  next
    case (Some j)
    with assms a have "\<not> isReference (fst (JSON_value a j))" by simp
    from JSON_value_stable [OF this, of b] a b Some show ?thesis by simp
  qed
qed

text \<open>The read as one parse of a section followed by the extraction; an early return is
  the empty section.\<close>

lemma readCurrentPlatformConfig_shape:
  "\<exists>sec. \<forall>h. readCurrentPlatformConfig plat fs h criticalKeys
       = (extractLoop (case criticalKeys of None \<Rightarrow> DEFAULT_CRITICAL_CONFIG plat | Some ks \<Rightarrow> ks)
             (fst (JSON_object h sec)) [],
          snd (JSON_object h sec))"
proof -
  define sec where "sec =
     (case readJsonFile (app_json fs) of
        None \<Rightarrow> []
      | Some appJson \<Rightarrow>
         (case find isBuildPropertiesPlugin
                 (case plugins (expo appJson) of None \<Rightarrow> [] | Some ps \<Rightarrow> ps) of
            Some (PluginTuple s (Some pluginConfig)) \<Rightarrow>
              (case (if plat = Android then props_android pluginConfig
                     else props_ios pluginConfig) of None \<Rightarrow> [] | Some c \<Rightarrow> c)
          | _ \<Rightarrow> []))"
  have "readCurrentPlatformConfig plat fs h criticalKeys
       = (extractLoop (case criticalKeys of None \<Rightarrow> DEFAULT_CRITICAL_CONFIG plat | Some ks \<Rightarrow> ks)
             (fst (JSON_object h sec)) [],
          snd (JSON_object h sec))" for h
    unfolding readCurrentPlatformConfig_def sec_def Let_def
    by (simp split: option.splits plugin.splits prod.splits)
  then show ?thesis by blast
qed

lemma readCurrentPlatformConfig_app_json:
  "app_json fs' = app_json fs
     \<Longrightarrow> readCurrentPlatformConfig plat fs' h criticalKeys
         = readCurrentPlatformConfig plat fs h criticalKeys"
  by (simp add: readCurrentPlatformConfig_def)

lemma getLastConfig_updateLastConfig:
  "getLastConfig (fst (updateLastConfig t fs plat c)) plat = c"
  by (cases plat) (simp_all add: getLastConfig_def updateLastConfig_def Let_def)

lemma app_json_updateLastConfig:
  "app_json (snd (updateLastConfig t fs plat c)) = app_json fs"
  by (simp add: updateLastConfig_def Let_def save_def)

lemma valueAt_not_reference:
  "list_all (\<lambda>(k, v). \<not> isReference v) ob \<Longrightarrow> \<not> isReference (valueAt ob k)"
  by (auto simp: valueAt_def objGet_def list_all_iff split: option.splits dest!: map_of_SomeD)

text \<open>
  Claim C2, amended. When every value read for a critical key is a primitive (a number,
  string, boolean or \<open>null\<close>, not an array or object), \<open>updateTrackedConfig\<close> followed by
  \<open>detectConfigChanges\<close> on the same tracker, with \<open>app.json\<close> as it was, returns no change.
\<close>

theorem roundtrip_primitive:
  assumes "list_all (\<lambda>(k, v). \<not> isReference v)
             (fst (readCurrentPlatformConfig plat fs h criticalKeys))"
  shows "fst (detectConfigChanges plat
                (fst (fst (updateTrackedConfig plat t fs h criticalKeys)))
                (snd (fst (updateTrackedConfig plat t fs h criticalKeys)))
                (snd (updateTrackedConfig plat t fs h criticalKeys))
                criticalKeys) = []
       \<and> app_json (snd (fst (updateTrackedConfig plat t fs h criticalKeys))) = app_json fs"
proof -
  define keys where
    "keys = (case criticalKeys of None \<Rightarrow> DEFAULT_CRITICAL_CONFIG plat | Some ks \<Rightarrow> ks)"
  from readCurrentPlatformConfig_shape [of plat fs criticalKeys] obtain sec where
    shape: "\<And>h. readCurrentPlatformConfig plat fs h criticalKeys
       = (extractLoop keys (fst (JSON_object h sec)) [], snd (JSON_object h sec))"
    unfolding keys_def by blast
  define c1 where "c1 = extractLoop keys (fst (JSON_object h sec)) []"
  define h1 where "h1 = snd (JSON_object h sec)"
  define t' where "t' = fst (updateLastConfig t fs plat c1)"
  define fs' where "fs' = snd (updateLastConfig t fs plat c1)"
  have upd: "updateTrackedConfig plat t fs h criticalKeys = ((t', fs'), h1)"
    by (simp add: updateTrackedConfig_def shape c1_def h1_def t'_def fs'_def)
  have app: "app_json fs' = app_json fs"
    by (simp add: fs'_def app_json_updateLastConfig)
  have prim: "\<not> isReference (valueAt c1 k)" for k
    using assms valueAt_not_reference by (simp add: shape c1_def)
  have stable: "valueAt (fst (JSON_object h1 sec)) k = valueAt (fst (JSON_object h sec)) k"
    if "k \<in> set keys" for k
  proof (rule JSON_object_stable)
    show "\<not> isReference (valueAt (fst (JSON_object h sec)) k)"
      using prim [of k] that by (auto simp: c1_def extractLoop_valueAt split: if_splits)
  qed
  have c2: "fst (readCurrentPlatformConfig plat fs' h1 criticalKeys) = c1"
    unfolding readCurrentPlatformConfig_app_json [OF app] shape c1_def
    by (simp add: extractLoop_cong [OF stable])
  have "fst (detectConfigChanges plat t' fs' h1 criticalKeys) = []"
    by (simp add: detectConfigChanges_def split_beta Let_def c2 t'_def
        getLastConfig_updateLastConfig detectLoop_acc)
  with app show ?thesis
    by (simp add: upd)
qed

theorem roundtrip_primitive_witness:
  "list_all (\<lambda>(k, v). \<not> isReference v)
     (fst (readCurrentPlatformConfig Android
        \<lparr>app_json = Text (Document \<lparr>expo = \<lparr>version = Some ''1.0.0'', plugins = Some
            [PluginName ''expo-router'',
             PluginTuple ''expo-build-properties''
               (Some \<lparr>props_android = Some [(''minSdkVersion'', JNum 24), (''targetSdkVersion'', JNum 35)],
                       props_ios = Some [(''deploymentTarget'', JStr ''15.1'')]\<rparr>)]\<rparr>\<rparr>),
          package_json = Missing, deployments_json = Missing\<rparr>
        0 None))
   \<and> fst (detectConfigChanges Android
       (fst (fst (updateTrackedConfig Android \<lparr>data = createEmptyDeploymentHistory\<rparr>
          \<lparr>app_json = Text (Document \<lparr>expo = \<lparr>version = Some ''1.0.0'', plugins = Some
              [PluginName ''expo-router'',
               PluginTuple ''expo-build-properties''
                 (Some \<lparr>props_android = Some [(''minSdkVersion'', JNum 24), (''targetSdkVersion'', JNum 35)],
                         props_ios = Some [(''deploymentTarget'', JStr ''15.1'')]\<rparr>)]\<rparr>\<rparr>),
            package_json = Missing, deployments_json = Missing\<rparr>
          0 None)))
       (snd (fst (updateTrackedConfig Android \<lparr>data = createEmptyDeploymentHistory\<rparr>
          \<lparr>app_json = Text (Document \<lparr>expo = \<lparr>version = Some ''1.0.0'', plugins = Some
              [PluginName ''expo-router'',
               PluginTuple ''expo-build-properties''
                 (Some \<lparr>props_android = Some [(''minSdkVersion'', JNum 24), (''targetSdkVersion'', JNum 35)],
                         props_ios = Some [(''deploymentTarget'', JStr ''15.1'')]\<rparr>)]\<rparr>\<rparr>),
            package_json = Missing, deployments_json = Missing\<rparr>
          0 None)))
       (snd (updateTrackedConfig Android \<lparr>data = createEmptyDeploymentHistory\<rparr>
          \<lparr>app_json = Text (Document \<lparr>expo = \<lparr>version = Some ''1.0.0'', plugins = Some
              [PluginName ''expo-router'',
               PluginTuple ''expo-build-properties''
                 (Some \<lparr>props_android = Some [(''minSdkVersion'', JNum 24), (''targetSdkVersion'', JNum 35)],
                         props_ios = Some [(''deploymentTarget'', JStr ''15.1'')]\<rparr>)]\<rparr>\<rparr>),
            package_json = Missing, deployments_json = Missing\<rparr>
          0 None))
       None) = []"
proof -
  let ?fs = "\<lparr>app_json = Text (Document \<lparr>expo = \<lparr>version = Some ''1.0.0'', plugins = Some
            [PluginName ''expo-router'',
             PluginTuple ''expo-build-properties''
               (Some \<lparr>props_android = Some [(''minSdkVersion'', JNum 24), (''targetSdkVersion'', JNum 35)],
                       props_ios = Some [(''deploymentTarget'', JStr ''15.1'')]\<rparr>)]\<rparr>\<rparr>),
          package_json = Missing, deployments_json = Missing\<rparr>"
  have h: "list_all (\<lambda>(k, v). \<not> isReference v) (fst (readCurrentPlatformConfig Android ?fs 0 None))"
    by (simp add: readCurrentPlatformConfig_def readJsonFile_def existsSync_def
        readFileSync_def JSON_parse_def valueAt_def Let_def)
  from roundtrip_primitive [OF h, of "\<lparr>data = createEmptyDeploymentHistory\<rparr>"] h
  show ?thesis by blast
qed

text \<open>
  Claim C2, as the code has it. The critical key \<open>extraMavenRepos\<close> holds an array. Each
  read of \<open>app.json\<close> parses the file again and builds a new array, the snapshot holds the
  array of the first read, and \<open>!==\<close> compares arrays by identity: the key is reported as
  changed although the file is the same.
\<close>

theorem roundtrip_array_changes:
  "fst (detectConfigChanges Android
     (fst (fst (updateTrackedConfig Android \<lparr>data = createEmptyDeploymentHistory\<rparr>
        \<lparr>app_json = Text (Document \<lparr>expo = \<lparr>version = Some ''1.0.0'', plugins = Some
            [PluginTuple ''expo-build-properties''
               (Some \<lparr>props_android = Some [(''extraMavenRepos'', JArray [JStr ''https://repo.example/maven''])],
                       props_ios = None\<rparr>)]\<rparr>\<rparr>),
          package_json = Missing, deployments_json = Missing\<rparr>
        0 (Some [''extraMavenRepos'']))))
     (snd (fst (updateTrackedConfig Android \<lparr>data = createEmptyDeploymentHistory\<rparr>
        \<lparr>app_json = Text (Document \<lparr>expo = \<lparr>version = Some ''1.0.0'', plugins = Some
            [PluginTuple ''expo-build-properties''
               (Some \<lparr>props_android = Some [(''extraMavenRepos'', JArray [JStr ''https://repo.example/maven''])],
                       props_ios = None\<rparr>)]\<rparr>\<rparr>),
          package_json = Missing, deployments_json = Missing\<rparr>
        0 (Some [''extraMavenRepos'']))))
     (snd (updateTrackedConfig Android \<lparr>data = createEmptyDeploymentHistory\<rparr>
        \<lparr>app_json = Text (Document \<lparr>expo = \<lparr>version = Some ''1.0.0'', plugins = Some
            [PluginTuple ''expo-build-properties''
               (Some \<lparr>props_android = Some [(''extraMavenRepos'', JArray [JStr ''https://repo.example/maven''])],
                       props_ios = None\<rparr>)]\<rparr>\<rparr>),
          package_json = Missing, deployments_json = Missing\<rparr>
        0 (Some [''extraMavenRepos''])))
     (Some [''extraMavenRepos'']))
   = [\<lparr>key = ''extraMavenRepos'',
       from_value = VObject 0 (JArray [JStr ''https://repo.example/maven'']),
       to_value = VObject 1 (JArray [JStr ''https://repo.example/maven''])\<rparr>]"
  by (simp add: detectConfigChanges_def updateTrackedConfig_def readCurrentPlatformConfig_def
      updateLastConfig_def save_def getLastConfig_def readJsonFile_def existsSync_def
      readFileSync_def JSON_parse_def writeJsonFile_def createEmptyDeploymentHistory_def
      valueAt_def Let_def)

end
